theory Spec2Isabelle
  imports Complex_Main
begin

section \<open>Exceptions\<close>

text \<open>
  Python exceptions are values. Each constructor carries the message that \<open>str(e)\<close>
  yields; \<open>HTTPException\<close> carries the status code and the detail.
  \<open>LibraryError\<close> stands for an exception raised inside a library call
  (aiohttp, PIL, moviepy) whose class the code never inspects.
\<close>

datatype exn =
    ValueError string
  | AttributeError string
  | IndexError string
  | MultipleResultsFound string
  | TypeError string
  | LibraryError string
  | HTTPException nat string

text \<open>The decimal digit of a number below ten.\<close>

definition digit_char :: "nat \<Rightarrow> char" where
  "digit_char n = ''0123456789'' ! (n mod 10)"

text \<open>\<open>str(n)\<close> for a non-negative integer: its decimal digits.\<close>

function str_nat :: "nat \<Rightarrow> string" where
  "str_nat n = (if n < 10 then [digit_char n] else str_nat (n div 10) @ [digit_char (n mod 10)])"
  by pat_completeness auto
termination
  by (relation "measure (\<lambda>n. n)") auto

declare str_nat.simps [simp del]

fun exn_str :: "exn \<Rightarrow> string" where
  "exn_str (ValueError m) = m"
| "exn_str (AttributeError m) = m"
| "exn_str (IndexError m) = m"
| "exn_str (MultipleResultsFound m) = m"
| "exn_str (TypeError m) = m"
| "exn_str (LibraryError m) = m"
| "exn_str (HTTPException code detail) = str_nat code @ '': '' @ detail"

section \<open>models/api.py: enumerations and request models\<close>

datatype JobStatus = PENDING | QUEUED | PROCESSING | COMPLETED | FAILED | CANCELLED

fun JobStatus_value :: "JobStatus \<Rightarrow> string" where
  "JobStatus_value PENDING = ''pending''"
| "JobStatus_value QUEUED = ''queued''"
| "JobStatus_value PROCESSING = ''processing''"
| "JobStatus_value COMPLETED = ''completed''"
| "JobStatus_value FAILED = ''failed''"
| "JobStatus_value CANCELLED = ''cancelled''"

datatype JobPriority = NORMAL | HIGH | URGENT

datatype MediaType = IMAGE | VIDEO | IMAGE_VIDEO

datatype TransitionType =
    FADE | CROSSFADE | SLIDE_LEFT | SLIDE_RIGHT | SLIDE_UP | SLIDE_DOWN
  | ZOOM_IN | ZOOM_OUT | NONE

text \<open>The quality \<open>HIGH\<close> is written \<open>HIGH_Q\<close>: the priority of that name comes first.\<close>

datatype VideoQuality = LOW | MEDIUM | HIGH_Q | ULTRA | SD | HD | FHD | QHD | UHD

datatype VideoFormat = MP4 | WEBM | AVI | MOV | GIF

fun VideoFormat_value :: "VideoFormat \<Rightarrow> string" where
  "VideoFormat_value MP4 = ''mp4''"
| "VideoFormat_value WEBM = ''webm''"
| "VideoFormat_value AVI = ''avi''"
| "VideoFormat_value MOV = ''mov''"
| "VideoFormat_value GIF = ''gif''"

text \<open>\<open>SceneData\<close>: one scene of a request. Durations are Python floats, read as reals.\<close>

record SceneData =
  source :: string
  media_type :: MediaType
  duration :: real
  transition :: TransitionType

record CompositionSettings =
  background_color :: string
  crossfade_audio :: bool

text \<open>
  \<open>VideoCompositionRequest\<close>. The \<open>scenes\<close> dictionary keeps insertion order, which is
  the render order, so it is an association list from scene name to scene.
\<close>

record VideoCompositionRequest =
  scenes :: "(string \<times> SceneData) list"
  output_format :: VideoFormat
  quality :: VideoQuality
  fps :: nat
  req_priority :: JobPriority
  composition_settings :: CompositionSettings
  req_webhook_url :: "string option"

text \<open>The field validator of \<open>scenes\<close>: an empty dictionary is rejected.\<close>

definition validate_scenes :: "(string \<times> SceneData) list \<Rightarrow> exn + (string \<times> SceneData) list" where
  "validate_scenes v = (if v = [] then Inl (ValueError ''At least one scene is required'') else Inr v)"

definition get_total_duration :: "VideoCompositionRequest \<Rightarrow> real" where
  "get_total_duration r = sum_list (map (\<lambda>(name, scene). duration scene) (scenes r))"

section \<open>models/database.py and models/api.py: the job row and its response view\<close>

text \<open>
  Timestamps are seconds on the clock \<open>datetime.utcnow()\<close> reads. \<open>JobResponse\<close> holds
  the columns the API shows; the row \<open>Job\<close> extends it with the columns that
  \<open>_to_job_response\<close> does not copy: the owning \<open>api_key\<close> and the serialised
  \<open>composition_config\<close>. Columns that no modelled operation reads or writes
  (output size and format, step counts, webhook attempts) are left out.
\<close>

type_synonym datetime = nat

record JobResponse =
  id_field :: string
  status :: JobStatus
  priority :: JobPriority
  title :: "string option"
  description :: "string option"
  progress :: real
  current_step :: "string option"
  output_file :: "string option"
  error_message :: "string option"
  retry_count :: nat
  max_retries :: nat
  created_at :: datetime
  updated_at :: datetime
  started_at :: "datetime option"
  completed_at :: "datetime option"
  expires_at :: "datetime option"
  webhook_url :: "string option"
  webhook_sent :: bool

record Job = JobResponse +
  api_key :: string
  composition_config :: string

definition to_job_response :: "Job \<Rightarrow> JobResponse" where
  "to_job_response job =
     \<lparr> id_field = id_field job, status = status job, priority = priority job,
       title = title job, description = description job, progress = progress job,
       current_step = current_step job, output_file = output_file job,
       error_message = error_message job, retry_count = retry_count job,
       max_retries = max_retries job, created_at = created_at job,
       updated_at = updated_at job, started_at = started_at job,
       completed_at = completed_at job, expires_at = expires_at job,
       webhook_url = webhook_url job, webhook_sent = webhook_sent job \<rparr>"

section \<open>services/job_service.py\<close>

text \<open>
  The \<open>jobs\<close> table is the list of its rows. \<open>id\<close> is the primary key, so a table the
  database can hold has pairwise distinct ids.
\<close>

type_synonym jobs_table = "Job list"

definition primary_key :: "jobs_table \<Rightarrow> bool" where
  "primary_key db = distinct (map id_field db)"

text \<open>\<open>select(Job).where(Job.id == job_id, Job.api_key == api_key)\<close>\<close>

definition select_job :: "jobs_table \<Rightarrow> string \<Rightarrow> string \<Rightarrow> Job list" where
  "select_job db job_id key = filter (\<lambda>j. id_field j = job_id \<and> api_key j = key) db"

fun scalar_one_or_none :: "'a list \<Rightarrow> exn + 'a option" where
  "scalar_one_or_none [] = Inr None"
| "scalar_one_or_none [x] = Inr (Some x)"
| "scalar_one_or_none (x # y # zs) =
     Inl (MultipleResultsFound ''Multiple rows were found when one or none was required'')"

text \<open>
  What the job service and the submit endpoint take from their surroundings: the id the
  database gives a new row (the column default \<open>uuid4()\<close>), the clock, the text that
  \<open>json.dumps\<close> yields for a dictionary it can serialise, and the rendering of a float
  with one decimal (\<open>{x:.1f}\<close>). The commit is taken to succeed.
\<close>

record submit_env =
  uuid4 :: string
  utcnow :: datetime
  json_text :: "VideoCompositionRequest \<Rightarrow> string"
  format_1f :: "real \<Rightarrow> string"

text \<open>
  \<open>json.dumps(composition_config)\<close>, where \<open>composition_config\<close> is
  \<open>composition_request.dict()\<close>. The dictionary holds the enumerations as strings, the
  scenes and settings as dictionaries of strings, numbers and booleans, and
  \<open>webhook_url\<close> as the URL object of pydantic 2, which is no string and which
  \<open>json.dumps\<close> refuses with a \<open>TypeError\<close>. So the call raises exactly when a webhook
  was given.
\<close>

definition json_dumps :: "submit_env \<Rightarrow> VideoCompositionRequest \<Rightarrow> exn + string" where
  "json_dumps env config_dict =
     (case req_webhook_url config_dict of
        Some url \<Rightarrow> Inl (TypeError ''Object of type HttpUrl is not JSON serializable'')
      | None \<Rightarrow> Inr (json_text env config_dict))"

text \<open>
  \<open>create_job\<close>: the row is built first, which serialises the configuration and may
  raise; then it is added with a fresh id, the status \<open>pending\<close> and an expiry seven
  days ahead, and its response view is returned. \<open>new_job\<close> is the row for a
  configuration already serialised.
\<close>

definition new_job ::
  "string \<Rightarrow> datetime \<Rightarrow> string \<Rightarrow> string option \<Rightarrow> string option \<Rightarrow> string \<Rightarrow> JobPriority \<Rightarrow>
   string option \<Rightarrow> Job" where
  "new_job new_id now key ttl descr config prio hook =
     \<lparr> id_field = new_id, status = PENDING, priority = prio,
       title = Some (case ttl of None \<Rightarrow> ''Untitled Composition''
                     | Some t \<Rightarrow> if t = [] then ''Untitled Composition'' else t),
       description = descr, progress = 0, current_step = None, output_file = None,
       error_message = None, retry_count = 0, max_retries = 3, created_at = now,
       updated_at = now, started_at = None, completed_at = None,
       expires_at = Some (now + 7 * 86400), webhook_url = hook, webhook_sent = False,
       api_key = key, composition_config = config \<rparr>"

definition create_job ::
  "submit_env \<Rightarrow> jobs_table \<Rightarrow> string \<Rightarrow> string option \<Rightarrow> string option \<Rightarrow>
   VideoCompositionRequest \<Rightarrow> JobPriority \<Rightarrow> string option \<Rightarrow>
   (exn + JobResponse) \<times> jobs_table" where
  "create_job env db key ttl descr config_dict prio hook =
     (case json_dumps env config_dict of
        Inl e \<Rightarrow> (Inl e, db)
      | Inr config \<Rightarrow>
          (let job = new_job (uuid4 env) (utcnow env) key ttl descr config prio hook
           in (Inr (to_job_response job), db @ [job])))"

definition get_job :: "jobs_table \<Rightarrow> string \<Rightarrow> string \<Rightarrow> exn + JobResponse option" where
  "get_job db job_id key =
     (case scalar_one_or_none (select_job db job_id key) of
        Inl e \<Rightarrow> Inl e
      | Inr None \<Rightarrow> Inr None
      | Inr (Some job) \<Rightarrow> Inr (Some (to_job_response job)))"

text \<open>
  \<open>update_job_status\<close>: the selected row gets the new status and \<open>updated_at\<close>; a
  finished status also sets \<open>completed_at\<close>. The write is by primary key. Any
  exception is swallowed and reported as \<open>False\<close>.
\<close>

definition is_finished_status :: "JobStatus \<Rightarrow> bool" where
  "is_finished_status s = (s = COMPLETED \<or> s = FAILED \<or> s = CANCELLED)"

definition set_status :: "JobStatus \<Rightarrow> datetime \<Rightarrow> Job \<Rightarrow> Job" where
  "set_status s now job =
     (let job1 = job\<lparr>status := s, updated_at := now\<rparr>
      in if is_finished_status s then job1\<lparr>completed_at := Some now\<rparr> else job1)"

definition update_job_status ::
  "jobs_table \<Rightarrow> string \<Rightarrow> string \<Rightarrow> JobStatus \<Rightarrow> datetime \<Rightarrow> bool \<times> jobs_table" where
  "update_job_status db job_id key s now =
     (case scalar_one_or_none (select_job db job_id key) of
        Inl e \<Rightarrow> (False, db)
      | Inr None \<Rightarrow> (False, db)
      | Inr (Some job) \<Rightarrow>
          (True, map (\<lambda>r. if id_field r = id_field job then set_status s now r else r) db))"

definition delete_job :: "jobs_table \<Rightarrow> string \<Rightarrow> string \<Rightarrow> bool \<times> jobs_table" where
  "delete_job db job_id key =
     (case scalar_one_or_none (select_job db job_id key) of
        Inl e \<Rightarrow> (False, db)
      | Inr None \<Rightarrow> (False, db)
      | Inr (Some job) \<Rightarrow> (True, filter (\<lambda>r. id_field r \<noteq> id_field job) db))"

text \<open>
  \<open>list_jobs\<close>. \<open>getattr(Job, query.sort_by)\<close> raises for a name that is no column;
  \<open>column_le\<close> gives the database's order on a column (\<open>None\<close> for such a name).
  Rows are ordered by insertion into the sorted prefix; the order of ties is the
  database's business and no statement below depends on it.
\<close>

record JobListQuery =
  q_status :: "JobStatus option"
  q_priority :: "JobPriority option"
  page :: nat
  per_page :: nat
  sort_by :: string
  sort_order :: string

fun insert_by :: "('a \<Rightarrow> 'a \<Rightarrow> bool) \<Rightarrow> 'a \<Rightarrow> 'a list \<Rightarrow> 'a list" where
  "insert_by le x [] = [x]"
| "insert_by le x (y # ys) = (if le x y then x # y # ys else y # insert_by le x ys)"

definition order_by :: "('a \<Rightarrow> 'a \<Rightarrow> bool) \<Rightarrow> 'a list \<Rightarrow> 'a list" where
  "order_by le xs = foldr (insert_by le) xs []"

definition list_jobs ::
  "(string \<Rightarrow> (Job \<Rightarrow> Job \<Rightarrow> bool) option) \<Rightarrow> jobs_table \<Rightarrow> string \<Rightarrow> JobListQuery \<Rightarrow>
   exn + JobResponse list" where
  "list_jobs column_le db key query =
     (let rows0 = filter (\<lambda>j. api_key j = key) db;
          rows1 = (case q_status query of None \<Rightarrow> rows0
                   | Some s \<Rightarrow> filter (\<lambda>j. status j = s) rows0);
          rows2 = (case q_priority query of None \<Rightarrow> rows1
                   | Some p \<Rightarrow> filter (\<lambda>j. priority j = p) rows1)
      in case column_le (sort_by query) of
           None \<Rightarrow> Inl (AttributeError (''type object Job has no attribute '' @ sort_by query))
         | Some le \<Rightarrow>
             (let sorted_rows = (if sort_order query = ''asc'' then order_by le rows2
                                 else order_by (\<lambda>a b. le b a) rows2);
                  jobs = take (per_page query) (drop ((page query - 1) * per_page query) sorted_rows)
              in Inr (map to_job_response jobs)))"

section \<open>api/endpoints/jobs.py\<close>

text \<open>\<open>sep.join(xs)\<close>\<close>

fun join_str :: "string \<Rightarrow> string list \<Rightarrow> string" where
  "join_str sep [] = []"
| "join_str sep [x] = x"
| "join_str sep (x # y # ys) = x @ sep @ join_str sep (y # ys)"

record JobSubmissionResponse =
  success :: bool
  job :: JobResponse
  message :: string

definition composition_title :: "string list \<Rightarrow> string" where
  "composition_title scene_names =
     (let ttl = ''Composition: '' @ join_str '', '' (take 3 scene_names)
      in if length scene_names > 3
         then ttl @ '' and '' @ str_nat (length scene_names - 3) @ '' more scenes''
         else ttl)"

definition composition_description :: "submit_env \<Rightarrow> VideoCompositionRequest \<Rightarrow> string" where
  "composition_description env r =
     ''Video composition with '' @ str_nat (length (scenes r)) @ '' scenes, total duration: ''
       @ format_1f env (get_total_duration r) @ ''s''"

text \<open>
  \<open>submit_composition_job\<close>. An exception of \<open>create_job\<close> is not caught: it leaves the
  endpoint, and no response is built.
\<close>

definition submit_composition_job ::
  "submit_env \<Rightarrow> jobs_table \<Rightarrow> string \<Rightarrow> VideoCompositionRequest \<Rightarrow>
   (exn + JobSubmissionResponse) \<times> jobs_table" where
  "submit_composition_job env db key composition_request =
     (if scenes composition_request = []
      then (Inl (HTTPException 400 ''At least one scene is required''), db)
      else
        let scene_names = map fst (scenes composition_request);
            ttl = composition_title scene_names;
            total_duration = get_total_duration composition_request;
            descr = composition_description env composition_request
        in case create_job env db key (Some ttl) (Some descr) composition_request
                  (req_priority composition_request) (req_webhook_url composition_request) of
             (Inl e, db') \<Rightarrow> (Inl e, db')
           | (Inr job_resp, db') \<Rightarrow>
               (Inr \<lparr> success = True, job = job_resp,
                      message = ''Video composition job submitted successfully. Total duration: ''
                        @ format_1f env total_duration @ ''s'' \<rparr>, db'))"

text \<open>
  \<open>process_job\<close>. The job in hand is the \<open>JobResponse\<close> that \<open>get_job\<close> returned, and a
  \<open>JobResponse\<close> has no field \<open>composition_config\<close>: reading \<open>job.composition_config\<close>
  raises \<open>AttributeError\<close>.
\<close>

definition job_composition_config :: "JobResponse \<Rightarrow> exn + string" where
  "job_composition_config job_resp =
     Inl (AttributeError ''JobResponse object has no attribute composition_config'')"

text \<open>
  Lines 216 to 232: look the job up, refuse what is missing or not pending, mark the job
  as processing. The result of \<open>update_job_status\<close> is not looked at. The detail of the
  refusal shows the status by its value.
\<close>

definition process_job_begin ::
  "jobs_table \<Rightarrow> string \<Rightarrow> string \<Rightarrow> datetime \<Rightarrow> (exn + JobResponse) \<times> jobs_table" where
  "process_job_begin db job_id key now =
     (case get_job db job_id key of
        Inl e \<Rightarrow> (Inl e, db)
      | Inr None \<Rightarrow> (Inl (HTTPException 404 ''Job not found''), db)
      | Inr (Some job_resp) \<Rightarrow>
          if status job_resp \<noteq> PENDING
          then (Inl (HTTPException 400
                  (''Job cannot be processed. Current status: '' @ JobStatus_value (status job_resp))), db)
          else (Inr job_resp, snd (update_job_status db job_id key PROCESSING now)))"

text \<open>
  The rest of the \<open>try\<close> block: read the configuration, run the pipeline on it
  (\<open>pipeline\<close> stands for \<open>json.loads\<close> followed by \<open>compose_video\<close>), mark the job
  as completed.
\<close>

definition process_job_render ::
  "(string \<Rightarrow> exn + string) \<Rightarrow> jobs_table \<Rightarrow> JobResponse \<Rightarrow> string \<Rightarrow> string \<Rightarrow> datetime \<Rightarrow>
   (exn + string) \<times> jobs_table" where
  "process_job_render pipeline db job_resp job_id key now =
     (case job_composition_config job_resp of
        Inl e \<Rightarrow> (Inl e, db)
      | Inr config \<Rightarrow>
          (case pipeline config of
             Inl e \<Rightarrow> (Inl e, db)
           | Inr output_path \<Rightarrow>
               (Inr output_path, snd (update_job_status db job_id key COMPLETED now))))"

text \<open>
  The \<open>except Exception as e\<close> clause: mark the job as failed and answer 500 with the
  message. Nothing else of the row is written.
\<close>

definition process_job_except ::
  "jobs_table \<Rightarrow> string \<Rightarrow> string \<Rightarrow> datetime \<Rightarrow> exn \<Rightarrow> (exn + string) \<times> jobs_table" where
  "process_job_except db job_id key now e =
     (Inl (HTTPException 500 (''Job processing failed: '' @ exn_str e)),
      snd (update_job_status db job_id key FAILED now))"

definition process_job ::
  "(string \<Rightarrow> exn + string) \<Rightarrow> jobs_table \<Rightarrow> string \<Rightarrow> string \<Rightarrow> datetime \<Rightarrow> datetime \<Rightarrow>
   (exn + string) \<times> jobs_table" where
  "process_job pipeline db job_id key t_begin t_end =
     (case process_job_begin db job_id key t_begin of
        (Inl e, db1) \<Rightarrow> (Inl e, db1)
      | (Inr job_resp, db1) \<Rightarrow>
          (case process_job_render pipeline db1 job_resp job_id key t_end of
             (Inl e, db2) \<Rightarrow> process_job_except db2 job_id key t_end e
           | (Inr output_path, db2) \<Rightarrow> (Inr output_path, db2)))"

section \<open>services/video_service.py: clips\<close>

text \<open>
  A clip is the term of moviepy calls that built it, so that a result shows which
  clips were joined, by which call and with which window. \<open>VideoFileClip path d f\<close> is a
  decoded file of duration \<open>d\<close> and frame rate \<open>f\<close>; \<open>SetPosition c d\<close> is the sliding
  position of \<open>slide_left\<close> over a window \<open>d\<close>.
\<close>

datatype concat_method = Chain | Compose

datatype clip =
    ImageClip string real
  | VideoFileClip string real real
  | Subclip clip real real
  | Resize clip "nat \<times> nat"
  | SetFps clip nat
  | FadeOut clip real
  | FadeIn clip real
  | SetStart clip real
  | SetDuration clip real
  | SetPosition clip real
  | Concatenate concat_method "clip list"
  | Composite "clip list"

fun max_list :: "real list \<Rightarrow> real" where
  "max_list [] = 0"
| "max_list [x] = x"
| "max_list (x # y # ys) = max x (max_list (y # ys))"

text \<open>
  The attributes \<open>start\<close> and \<open>duration\<close> as moviepy 1.x keeps them (\<open>end\<close> is always
  \<open>start + duration\<close>): \<open>subclip(a, b)\<close> lasts \<open>b - a\<close>; resizing, frame rate, fades and
  position leave the timing alone; a concatenation starts at 0 and lasts the sum of its
  parts; a composite starts at 0 and lasts until the latest end of its parts.
\<close>

fun clip_times :: "clip \<Rightarrow> real \<times> real" where
  "clip_times (ImageClip path d) = (0, d)"
| "clip_times (VideoFileClip path d f) = (0, d)"
| "clip_times (Subclip c a b) = (fst (clip_times c), b - a)"
| "clip_times (Resize c res) = clip_times c"
| "clip_times (SetFps c f) = clip_times c"
| "clip_times (FadeOut c d) = clip_times c"
| "clip_times (FadeIn c d) = clip_times c"
| "clip_times (SetStart c t) = (t, snd (clip_times c))"
| "clip_times (SetDuration c d) = (fst (clip_times c), d)"
| "clip_times (SetPosition c d) = clip_times c"
| "clip_times (Concatenate m cs) = (0, sum_list (map (\<lambda>c. snd (clip_times c)) cs))"
| "clip_times (Composite cs) =
     (0, max_list (map (\<lambda>c. fst (clip_times c) + snd (clip_times c)) cs))"

definition clip_start :: "clip \<Rightarrow> real" where
  "clip_start c = fst (clip_times c)"

definition clip_duration :: "clip \<Rightarrow> real" where
  "clip_duration c = snd (clip_times c)"

definition clip_end :: "clip \<Rightarrow> real" where
  "clip_end c = clip_start c + clip_duration c"

section \<open>services/video_service.py: the world outside\<close>

text \<open>
  An HTTP exchange either raises before a response exists (connection refused, timeout)
  or yields a status, a content type and the chunks of the body, after which the body
  iterator may still raise (a timeout in mid-transfer).
\<close>

datatype http_result =
    RequestFailed string
  | Response nat string "string list" "string option"

datatype write_call =
    write_gif string nat string
  | write_videofile string nat string string "string option"

text \<open>
  What the service asks of libraries and the operating system:
  \<^item> \<open>urlparse\<close>: scheme and network location of a source (\<open>None\<close> when parsing raises);
  \<^item> \<open>http_get\<close>: the exchange a URL leads to;
  \<^item> \<open>guess_extension\<close>, \<open>md5_hexdigest\<close>: as in \<open>mimetypes\<close> and \<open>hashlib\<close>;
  \<^item> \<open>image_open\<close>: opening and verifying a file as an image (the exception's message, or \<open>None\<close>);
  \<^item> \<open>video_open\<close>: opening a file as a video (the message, or duration and frame rate);
  \<^item> \<open>write_file\<close>: encoding a clip (the message of the encoder's exception, or \<open>None\<close>);
  \<^item> \<open>urandom_hex\<close>: the twelve hex digits of \<open>os.urandom(6).hex()\<close>.
  Writing a scratch file is taken to succeed.
\<close>

record media_env =
  urlparse :: "string \<Rightarrow> (string \<times> string) option"
  http_get :: "string \<Rightarrow> http_result"
  guess_extension :: "string \<Rightarrow> string option"
  md5_hexdigest :: "string \<Rightarrow> string"
  temp_dir :: string
  image_open :: "string \<Rightarrow> string option"
  video_open :: "string \<Rightarrow> string + real \<times> real"
  output_dir :: string
  urandom_hex :: string
  write_file :: "clip \<Rightarrow> write_call \<Rightarrow> string option"

text \<open>
  The state one render touches: the files on disk, the calls the progress callback has
  received (oldest first), and the scene clips created and not yet closed.
\<close>

record render_state =
  files :: "string \<rightharpoonup> string"
  progress_log :: "(string \<times> real) list"
  open_clips :: "clip list"

section \<open>services/video_service.py: the media resolver\<close>

definition download_media_from_url ::
  "media_env \<Rightarrow> string \<Rightarrow> render_state \<Rightarrow> (exn + string) \<times> render_state" where
  "download_media_from_url env url st =
     (case http_get env url of
        RequestFailed msg \<Rightarrow>
          (Inl (ValueError (''Failed to download media from '' @ url @ '': '' @ msg)), st)
      | Response code content_type chunks err \<Rightarrow>
          if code \<noteq> 200
          then (Inl (ValueError (''Failed to download media from '' @ url @ '': ''
                  @ ''Failed to download from '' @ url @ '': HTTP '' @ str_nat code)), st)
          else
            let extension = (case guess_extension env content_type of
                               None \<Rightarrow> ''.tmp''
                             | Some ext \<Rightarrow> if ext = [] then ''.tmp'' else ext);
                url_hash = take 8 (md5_hexdigest env url);
                temp_file = temp_dir env @ ''/download_'' @ url_hash @ extension;
                st' = st\<lparr>files := (files st)(temp_file \<mapsto> concat chunks)\<rparr>
            in case err of
                 None \<Rightarrow> (Inr temp_file, st')
               | Some msg \<Rightarrow>
                   (Inl (ValueError (''Failed to download media from '' @ url @ '': '' @ msg)), st'))"

definition is_url :: "media_env \<Rightarrow> string \<Rightarrow> bool" where
  "is_url env src =
     (case urlparse env src of
        None \<Rightarrow> False
      | Some (scheme, netloc) \<Rightarrow> scheme \<noteq> [] \<and> netloc \<noteq> [])"

definition get_media_path ::
  "media_env \<Rightarrow> string \<Rightarrow> render_state \<Rightarrow> (exn + string) \<times> render_state" where
  "get_media_path env src st =
     (if is_url env src then download_media_from_url env src st else (Inr src, st))"

section \<open>services/video_service.py: the clip materializer\<close>

definition load_video ::
  "media_env \<Rightarrow> string \<Rightarrow> SceneData \<Rightarrow> nat \<times> nat \<Rightarrow> nat \<Rightarrow> exn + clip" where
  "load_video env media_path scene_data target_resolution target_fps =
     (case video_open env media_path of
        Inl msg \<Rightarrow> Inl (LibraryError msg)
      | Inr (d, f) \<Rightarrow>
          let c = Resize (Subclip (VideoFileClip media_path d f) 0 (min (duration scene_data) d))
                    target_resolution
          in Inr (if f \<noteq> real target_fps then SetFps c target_fps else c))"

definition load_media ::
  "media_env \<Rightarrow> string \<Rightarrow> SceneData \<Rightarrow> nat \<times> nat \<Rightarrow> nat \<Rightarrow> exn + clip" where
  "load_media env media_path scene_data target_resolution target_fps =
     (if media_type scene_data = IMAGE \<or> media_type scene_data = IMAGE_VIDEO then
        (case image_open env media_path of
           None \<Rightarrow>
             Inr (SetFps (Resize (ImageClip media_path (duration scene_data)) target_resolution)
                    target_fps)
         | Some msg \<Rightarrow>
             if media_type scene_data = IMAGE_VIDEO
             then load_video env media_path scene_data target_resolution target_fps
             else Inl (LibraryError msg))
      else if media_type scene_data = VIDEO then
        load_video env media_path scene_data target_resolution target_fps
      else Inl (ValueError ''Unsupported media type''))"

definition create_clip_from_scene ::
  "media_env \<Rightarrow> string \<Rightarrow> SceneData \<Rightarrow> nat \<times> nat \<Rightarrow> nat \<Rightarrow> render_state \<Rightarrow>
   (exn + clip) \<times> render_state" where
  "create_clip_from_scene env scene_name scene_data target_resolution target_fps st =
     (case get_media_path env (source scene_data) st of
        (Inl e, st1) \<Rightarrow> (Inl e, st1)
      | (Inr media_path, st1) \<Rightarrow>
          (case load_media env media_path scene_data target_resolution target_fps of
             Inl e \<Rightarrow>
               (Inl (ValueError (''Failed to create clip from '' @ scene_name @ '': '' @ exn_str e)),
                st1)
           | Inr c \<Rightarrow> (Inr c, st1\<lparr>open_clips := open_clips st1 @ [c]\<rparr>)))"

section \<open>services/video_service.py: the transition compositor\<close>

fun apply_transition :: "clip \<Rightarrow> clip \<Rightarrow> TransitionType \<Rightarrow> real \<Rightarrow> clip" where
  "apply_transition clip1 clip2 NONE d = Concatenate Chain [clip1, clip2]"
| "apply_transition clip1 clip2 FADE d = Concatenate Chain [FadeOut clip1 d, FadeIn clip2 d]"
| "apply_transition clip1 clip2 CROSSFADE d =
     (let d' = (if d > min (clip_duration clip1) (clip_duration clip2)
                then min (clip_duration clip1) (clip_duration clip2) * (1 / 2) else d)
      in Composite [FadeOut clip1 d', SetStart (FadeIn clip2 d') (clip_duration clip1 - d')])"
| "apply_transition clip1 clip2 SLIDE_LEFT d =
     SetDuration
       (Composite [clip1, SetDuration (SetStart (SetPosition clip2 d) (clip_duration clip1)) d])
       (clip_duration clip1 + d)"
| "apply_transition clip1 clip2 t d = Concatenate Chain [clip1, clip2]"

section \<open>services/video_service.py: the render pipeline\<close>

fun QUALITY_RESOLUTIONS :: "VideoQuality \<Rightarrow> nat \<times> nat" where
  "QUALITY_RESOLUTIONS SD = (640, 480)"
| "QUALITY_RESOLUTIONS HD = (1280, 720)"
| "QUALITY_RESOLUTIONS FHD = (1920, 1080)"
| "QUALITY_RESOLUTIONS QHD = (2560, 1440)"
| "QUALITY_RESOLUTIONS UHD = (3840, 2160)"
| "QUALITY_RESOLUTIONS LOW = (640, 480)"
| "QUALITY_RESOLUTIONS MEDIUM = (1280, 720)"
| "QUALITY_RESOLUTIONS HIGH_Q = (1920, 1080)"
| "QUALITY_RESOLUTIONS ULTRA = (3840, 2160)"

text \<open>The call to the progress callback, when one was passed.\<close>

definition report :: "bool \<Rightarrow> string \<Rightarrow> real \<Rightarrow> render_state \<Rightarrow> render_state" where
  "report has_callback msg p st =
     (if has_callback then st\<lparr>progress_log := progress_log st @ [(msg, p)]\<rparr> else st)"

text \<open>
  The first loop: scene \<open>i\<close> of \<open>n\<close> reports \<open>10 + (i / n) * 50\<close>, is materialized, and
  joins \<open>clips\<close> with its own transition. An exception leaves the loop at once.
\<close>

fun create_clips ::
  "media_env \<Rightarrow> bool \<Rightarrow> nat \<times> nat \<Rightarrow> nat \<Rightarrow> nat \<Rightarrow> nat \<Rightarrow> (string \<times> SceneData) list \<Rightarrow>
   (clip \<times> TransitionType) list \<Rightarrow> render_state \<Rightarrow>
   (exn + (clip \<times> TransitionType) list) \<times> render_state" where
  "create_clips env cb res target_fps n i [] clips st = (Inr clips, st)"
| "create_clips env cb res target_fps n i ((scene_name, scene_data) # rest) clips st =
     (let st1 = report cb (''Processing scene: '' @ scene_name) (10 + (real i / real n) * 50) st
      in case create_clip_from_scene env scene_name scene_data res target_fps st1 of
           (Inl e, st2) \<Rightarrow> (Inl e, st2)
         | (Inr c, st2) \<Rightarrow>
             create_clips env cb res target_fps n (Suc i) rest
               (clips @ [(c, transition scene_data)]) st2)"

text \<open>
  The second loop, over \<open>enumerate(clips)\<close>: the first clip opens \<open>final_clips\<close>; a later
  clip reads \<open>final_clips[-1]\<close> (an \<open>IndexError\<close> on an empty list) and either replaces
  it by the transition applied to it and the clip, with the default window of half a
  second, or, for the transition \<open>none\<close>, is appended.
\<close>

fun join_clips ::
  "nat \<Rightarrow> clip list \<Rightarrow> (clip \<times> TransitionType) list \<Rightarrow> exn + clip list" where
  "join_clips i final_clips [] = Inr final_clips"
| "join_clips i final_clips ((c, t) # rest) =
     (if i = 0 then join_clips (Suc i) (final_clips @ [c]) rest
      else if final_clips = [] then Inl (IndexError ''list index out of range'')
      else
        let prev_clip = last final_clips
        in if t \<noteq> NONE
           then join_clips (Suc i)
                  (final_clips[length final_clips - 1 := apply_transition prev_clip c t (1 / 2)]) rest
           else join_clips (Suc i) (final_clips @ [c]) rest)"

definition apply_transitions :: "(clip \<times> TransitionType) list \<Rightarrow> exn + clip list" where
  "apply_transitions clips = join_clips 0 [] clips"

text \<open>\<open>concatenate_videoclips\<close> of no clips raises.\<close>

definition concatenate_videoclips :: "concat_method \<Rightarrow> clip list \<Rightarrow> exn + clip" where
  "concatenate_videoclips m cs =
     (if cs = [] then Inl (ValueError ''max() arg is an empty sequence'')
      else Inr (Concatenate m cs))"

text \<open>The encoder call the format selects; a GIF is written at 15 frames a second at most.\<close>

fun encode_call :: "VideoFormat \<Rightarrow> string \<Rightarrow> nat \<Rightarrow> write_call" where
  "encode_call MP4 path target_fps = write_videofile path target_fps ''libx264'' ''aac'' (Some ''medium'')"
| "encode_call WEBM path target_fps = write_videofile path target_fps ''libvpx-vp9'' ''libvorbis'' None"
| "encode_call AVI path target_fps = write_videofile path target_fps ''libxvid'' ''mp3'' None"
| "encode_call MOV path target_fps = write_videofile path target_fps ''libx264'' ''aac'' None"
| "encode_call GIF path target_fps = write_gif path (min target_fps 15) ''ffmpeg''"

definition close_clip :: "clip \<Rightarrow> render_state \<Rightarrow> render_state" where
  "close_clip c st = st\<lparr>open_clips := remove1 c (open_clips st)\<rparr>"

text \<open>The body of the \<open>try\<close> block of \<open>compose_video\<close>.\<close>

definition compose_video_try ::
  "media_env \<Rightarrow> bool \<Rightarrow> (string \<times> SceneData) list \<Rightarrow> VideoFormat \<Rightarrow> VideoQuality \<Rightarrow> nat \<Rightarrow>
   CompositionSettings \<Rightarrow> render_state \<Rightarrow> (exn + string) \<times> render_state" where
  "compose_video_try env cb scene_items fmt q target_fps settings st0 =
     (let target_resolution = QUALITY_RESOLUTIONS q;
          st1 = report cb ''Creating clips from scenes'' 10 st0
      in case create_clips env cb target_resolution target_fps (length scene_items) 0
                scene_items [] st1 of
           (Inl e, st2) \<Rightarrow> (Inl e, st2)
         | (Inr clips, st2) \<Rightarrow>
             let st3 = report cb ''Applying transitions'' 70 st2
             in case apply_transitions clips of
                  Inl e \<Rightarrow> (Inl e, st3)
                | Inr final_clips \<Rightarrow>
                    let st4 = report cb ''Concatenating video'' 80 st3
                    in case (if length final_clips = 1 then Inr (hd final_clips)
                             else concatenate_videoclips Compose final_clips) of
                         Inl e \<Rightarrow> (Inl e, st4)
                       | Inr final_video \<Rightarrow>
                           let st5 = report cb ''Rendering final video'' 90 st4;
                               output_path = output_dir env @ ''/composition_'' @ urandom_hex env
                                               @ ''.'' @ VideoFormat_value fmt
                           in case write_file env final_video
                                     (encode_call fmt output_path target_fps) of
                                Some msg \<Rightarrow> (Inl (LibraryError msg), st5)
                              | None \<Rightarrow>
                                  let st6 = report cb ''Video composition complete'' 100 st5;
                                      st7 = fold close_clip (map fst clips) st6;
                                      st8 = close_clip final_video st7
                                  in (Inr output_path, st8))"

text \<open>\<open>compose_video\<close>: any exception of the body is raised again as a \<open>ValueError\<close>.\<close>

definition compose_video ::
  "media_env \<Rightarrow> bool \<Rightarrow> (string \<times> SceneData) list \<Rightarrow> VideoFormat \<Rightarrow> VideoQuality \<Rightarrow> nat \<Rightarrow>
   CompositionSettings \<Rightarrow> render_state \<Rightarrow> (exn + string) \<times> render_state" where
  "compose_video env cb scene_items fmt q target_fps settings st0 =
     (case compose_video_try env cb scene_items fmt q target_fps settings st0 of
        (Inl e, st) \<Rightarrow> (Inl (ValueError (''Video composition failed: '' @ exn_str e)), st)
      | (Inr output_path, st) \<Rightarrow> (Inr output_path, st))"

section \<open>The second loop as a fold\<close>

text \<open>
  One round of the second loop for a clip that is not the first, on a non-empty
  \<open>final_clips\<close>: the statement of the loop body, used to describe \<open>join_clips\<close>.
\<close>

definition join_step :: "clip list \<Rightarrow> clip \<times> TransitionType \<Rightarrow> clip list" where
  "join_step fc ct =
     (if snd ct \<noteq> NONE
      then butlast fc @ [apply_transition (last fc) (fst ct) (snd ct) (1 / 2)]
      else fc @ [fst ct])"

section \<open>Concrete inputs\<close>

text \<open>Two jobs of two owners, as \<open>create_job\<close> makes them, and later states of the first.\<close>

definition job_a :: Job where
  "job_a = new_job ''a'' 100 ''key-1'' (Some ''Composition: Scene 1'') None ''{}'' NORMAL None"

definition job_b :: Job where
  "job_b = new_job ''b'' 200 ''key-2'' (Some ''Composition: Intro'') None ''{}'' HIGH None"

definition job_done :: Job where
  "job_done = job_a\<lparr>status := COMPLETED, completed_at := Some 150\<rparr>"

definition job_processing :: Job where
  "job_processing = job_a\<lparr>status := PROCESSING, updated_at := 120\<rparr>"

text \<open>A request in the format of the endpoint's documentation.\<close>

definition example_scene :: SceneData where
  "example_scene = \<lparr> source = ''https://example.com/image.jpg'', media_type = IMAGE_VIDEO,
                      duration = 3, transition = FADE \<rparr>"

definition example_request :: "(string \<times> SceneData) list \<Rightarrow> VideoCompositionRequest" where
  "example_request ss = \<lparr> scenes = ss, output_format = MP4, quality = FHD, fps = 30,
      req_priority = NORMAL,
      composition_settings = \<lparr> background_color = ''black'', crossfade_audio = True \<rparr>,
      req_webhook_url = None \<rparr>"

definition example_request_with_webhook :: VideoCompositionRequest where
  "example_request_with_webhook =
     (example_request [(''Scene 1'', example_scene)])
       \<lparr>req_webhook_url := Some ''https://example.com/hook''\<rparr>"

definition example_submit_env :: submit_env where
  "example_submit_env = \<lparr> uuid4 = ''c'', utcnow = 300, json_text = (\<lambda>r. ''{}''),
      format_1f = (\<lambda>x. ''3.0'') \<rparr>"

text \<open>Three still images of two, four and six seconds.\<close>

definition clip_a :: clip where
  "clip_a = ImageClip ''a.png'' 2"

definition clip_b :: clip where
  "clip_b = ImageClip ''b.png'' 4"

definition clip_c :: clip where
  "clip_c = ImageClip ''c.png'' 6"

text \<open>
  A world for the pipeline: one URL, a decodable video \<open>clip.mp4\<close>, an unreadable image
  \<open>bad.png\<close>, an encoder that succeeds; the answer of the network is the parameter.
\<close>

definition fresh_state :: render_state where
  "fresh_state = \<lparr> files = Map.empty, progress_log = [], open_clips = [] \<rparr>"

definition example_url :: string where
  "example_url = ''https://example.com/image.jpg''"

definition example_env :: "http_result \<Rightarrow> media_env" where
  "example_env response =
     \<lparr> urlparse = (\<lambda>s. if s = example_url then Some (''https'', ''example.com'')
                          else Some ('''', '''')),
       http_get = (\<lambda>u. response),
       guess_extension = (\<lambda>ct. if ct = ''image/jpeg'' then Some ''.jpg'' else None),
       md5_hexdigest = (\<lambda>u. ''0123456789abcdef0123456789abcdef''),
       temp_dir = ''/tmp/video_composition'',
       image_open = (\<lambda>p. if p = ''bad.png'' then Some ''cannot identify image file'' else None),
       video_open = (\<lambda>p. if p = ''clip.mp4'' then Inr (10, 30) else Inl ''could not be opened''),
       output_dir = ''/outputs'',
       urandom_hex = ''00a1b2c3d4e5'',
       write_file = (\<lambda>c w. None) \<rparr>"

definition video_scene :: SceneData where
  "video_scene = \<lparr> source = ''clip.mp4'', media_type = VIDEO, duration = 3, transition = NONE \<rparr>"

definition image_scene :: SceneData where
  "image_scene = \<lparr> source = ''logo.png'', media_type = IMAGE, duration = 5, transition = FADE \<rparr>"

definition broken_scene :: SceneData where
  "broken_scene = \<lparr> source = ''bad.png'', media_type = IMAGE, duration = 5, transition = FADE \<rparr>"

definition black_settings :: CompositionSettings where
  "black_settings = \<lparr> background_color = ''black'', crossfade_audio = True \<rparr>"

definition offline_env :: media_env where
  "offline_env = example_env (RequestFailed ''Cannot connect to host'')"

definition two_scenes :: "(string \<times> SceneData) list" where
  "two_scenes = [(''Scene 1'', video_scene), (''Scene 2'', image_scene)]"

definition failing_scenes :: "(string \<times> SceneData) list" where
  "failing_scenes = [(''Scene 1'', video_scene), (''Scene 2'', broken_scene)]"

definition clip_1 :: clip where
  "clip_1 = Resize (Subclip (VideoFileClip ''clip.mp4'' 10 30) 0 3) (1920, 1080)"

definition clip_2 :: clip where
  "clip_2 = SetFps (Resize (ImageClip ''logo.png'' 5) (1920, 1080)) 30"

section \<open>Lemmas about the job service\<close>

lemma scalar_one_or_none_Some: "scalar_one_or_none xs = Inr (Some x) \<Longrightarrow> xs = [x]"
  by (cases xs rule: scalar_one_or_none.cases) auto

lemma scalar_one_or_none_None: "scalar_one_or_none xs = Inr None \<longleftrightarrow> xs = []"
  by (cases xs rule: scalar_one_or_none.cases) auto

lemma select_job_member: "j \<in> set (select_job db job_id key) \<longleftrightarrow> j \<in> set db \<and> id_field j = job_id \<and> api_key j = key"
  by (auto simp: select_job_def)

lemma filter_id_le_one: "distinct (map f xs) \<Longrightarrow> length (filter (\<lambda>j. f j = a \<and> P j) xs) \<le> 1"
proof (induction xs)
  case Nil
  then show ?case by simp
next
  case (Cons x xs)
  show ?case
  proof (cases "f x = a")
    case True
    with Cons.prems have "\<forall>y\<in>set xs. f y \<noteq> a" by (auto simp: image_iff)
    then have "filter (\<lambda>j. f j = a \<and> P j) xs = []" by (auto simp: filter_empty_conv)
    then show ?thesis by simp
  next
    case False
    with Cons show ?thesis by simp
  qed
qed

lemma select_job_unique:
  assumes "primary_key db"
  shows "select_job db job_id key = [] \<or> (\<exists>j. select_job db job_id key = [j])"
proof -
  have "length (select_job db job_id key) \<le> 1"
    using assms unfolding primary_key_def select_job_def by (rule filter_id_le_one)
  then show ?thesis
    by (cases "select_job db job_id key" rule: scalar_one_or_none.cases) auto
qed

lemma select_job_found:
  assumes "primary_key db" "j \<in> set db" "api_key j = key"
  shows "select_job db (id_field j) key = [j]"
proof -
  from assms have "j \<in> set (select_job db (id_field j) key)" by (simp add: select_job_member)
  with select_job_unique [OF assms(1), of "id_field j" key] show ?thesis by auto
qed

lemma set_insert_by: "set (insert_by le x xs) = insert x (set xs)"
  by (induction xs) auto

lemma set_order_by: "set (order_by le xs) = set xs"
  unfolding order_by_def by (induction xs) (auto simp: set_insert_by)

lemma list_jobs_rows:
  assumes "list_jobs column_le db key q = Inr rs" "r \<in> set rs"
  shows "\<exists>j\<in>set db. api_key j = key \<and> r = to_job_response j"
proof -
  from assms obtain le where le: "column_le (sort_by q) = Some le"
    by (auto simp: list_jobs_def Let_def split: option.splits)
  define rows where "rows = (case q_priority q of None \<Rightarrow> (case q_status q of None \<Rightarrow> filter (\<lambda>j. api_key j = key) db
                   | Some s \<Rightarrow> filter (\<lambda>j. status j = s) (filter (\<lambda>j. api_key j = key) db))
                   | Some p \<Rightarrow> filter (\<lambda>j. priority j = p) (case q_status q of None \<Rightarrow> filter (\<lambda>j. api_key j = key) db
                   | Some s \<Rightarrow> filter (\<lambda>j. status j = s) (filter (\<lambda>j. api_key j = key) db)))"
  have sub: "set rows \<subseteq> {j \<in> set db. api_key j = key}"
    unfolding rows_def by (auto split: option.splits)
  define srt where "srt = (if sort_order q = ''asc'' then order_by le rows else order_by (\<lambda>a b. le b a) rows)"
  have srt: "set srt = set rows" unfolding srt_def by (simp add: set_order_by)
  from assms(1) le have "rs = map to_job_response (take (per_page q) (drop ((page q - 1) * per_page q) srt))"
    unfolding list_jobs_def Let_def srt_def rows_def by (auto split: option.splits)
  with assms(2) obtain j where "r = to_job_response j" "j \<in> set (take (per_page q) (drop ((page q - 1) * per_page q) srt))"
    by auto
  then have "j \<in> set srt" by (meson in_set_dropD in_set_takeD)
  with srt sub \<open>r = to_job_response j\<close> show ?thesis by auto
qed

text \<open>
  Claim C10. A caller sees and removes only jobs it owns: \<open>get_job\<close> returns a job only
  if a row with that id and that \<open>api_key\<close> exists; without such a row \<open>get_job\<close> returns
  nothing and \<open>delete_job\<close> returns \<open>False\<close> and leaves the table as it was; in a table
  with a primary key \<open>delete_job\<close> removes no row of another owner; and every job that
  \<open>list_jobs\<close> returns is the view of a row owned by the caller.
\<close>

theorem owner_isolation:
  "(get_job db job_id key = Inr (Some r) \<longrightarrow>
      (\<exists>j\<in>set db. id_field j = job_id \<and> api_key j = key \<and> r = to_job_response j))
   \<and> ((\<forall>j\<in>set db. \<not> (id_field j = job_id \<and> api_key j = key)) \<longrightarrow>
        get_job db job_id key = Inr None \<and> delete_job db job_id key = (False, db))
   \<and> (primary_key db \<longrightarrow>
        (\<forall>j\<in>set db. api_key j \<noteq> key \<longrightarrow> j \<in> set (snd (delete_job db job_id key))))
   \<and> (list_jobs column_le db key q = Inr rs \<longrightarrow>
        (\<forall>r'\<in>set rs. \<exists>j\<in>set db. api_key j = key \<and> r' = to_job_response j))"
proof (intro conjI impI ballI)
  assume "get_job db job_id key = Inr (Some r)"
  then obtain j where "scalar_one_or_none (select_job db job_id key) = Inr (Some j)" "r = to_job_response j"
    by (auto simp: get_job_def split: sum.splits option.splits)
  then have "j \<in> set (select_job db job_id key)" by (auto dest: scalar_one_or_none_Some)
  with \<open>r = to_job_response j\<close> show "\<exists>j\<in>set db. id_field j = job_id \<and> api_key j = key \<and> r = to_job_response j"
    by (auto simp: select_job_member)
next
  assume "\<forall>j\<in>set db. \<not> (id_field j = job_id \<and> api_key j = key)"
  then have "select_job db job_id key = []"
    by (auto simp: select_job_def filter_empty_conv)
  then show "get_job db job_id key = Inr None" "delete_job db job_id key = (False, db)"
    by (simp_all add: get_job_def delete_job_def)
next
  fix j assume pk: "primary_key db" and j: "j \<in> set db" "api_key j \<noteq> key"
  show "j \<in> set (snd (delete_job db job_id key))"
  proof (cases "scalar_one_or_none (select_job db job_id key)")
    case (Inl e)
    with j show ?thesis by (simp add: delete_job_def)
  next
    case (Inr res)
    show ?thesis
    proof (cases res)
      case None
      with Inr j show ?thesis by (simp add: delete_job_def)
    next
      case (Some d)
      with Inr have "d \<in> set (select_job db job_id key)" by (auto dest: scalar_one_or_none_Some)
      then have d: "d \<in> set db" "api_key d = key" by (simp_all add: select_job_member)
      have "id_field j \<noteq> id_field d"
      proof
        assume "id_field j = id_field d"
        with pk j(1) d(1) have "j = d"
          unfolding primary_key_def by (metis distinct_map inj_onD)
        with j(2) d(2) show False by simp
      qed
      with Inr Some j show ?thesis by (simp add: delete_job_def)
    qed
  qed
next
  fix r' assume "list_jobs column_le db key q = Inr rs" "r' \<in> set rs"
  then show "\<exists>j\<in>set db. api_key j = key \<and> r' = to_job_response j" by (rule list_jobs_rows)
qed


text \<open>
  Claim C10, at a table of two jobs of two owners: the owner reads job \<open>a\<close>, the other
  key neither reads nor deletes it, and deleting \<open>a\<close> keeps the other owner's job.
\<close>

theorem owner_isolation_witness:
  "get_job [job_a, job_b] ''a'' ''key-1'' = Inr (Some (to_job_response job_a))
   \<and> (\<exists>j\<in>set [job_a, job_b]. id_field j = ''a'' \<and> api_key j = ''key-1''
         \<and> to_job_response job_a = to_job_response j)
   \<and> get_job [job_a, job_b] ''a'' ''key-2'' = Inr None
   \<and> delete_job [job_a, job_b] ''a'' ''key-2'' = (False, [job_a, job_b])
   \<and> primary_key [job_a, job_b]
   \<and> job_b \<in> set (snd (delete_job [job_a, job_b] ''a'' ''key-1''))
   \<and> list_jobs (\<lambda>c. Some (\<lambda>x y. created_at x \<le> created_at y)) [job_a, job_b] ''key-2''
        \<lparr> q_status = None, q_priority = None, page = 1, per_page = 50,
          sort_by = ''created_at'', sort_order = ''desc'' \<rparr> = Inr [to_job_response job_b]
   \<and> (\<exists>j\<in>set [job_a, job_b]. api_key j = ''key-2''
         \<and> to_job_response job_b = to_job_response j)"
proof -
  have g: "get_job [job_a, job_b] ''a'' ''key-1'' = Inr (Some (to_job_response job_a))"
    by (simp add: get_job_def select_job_def job_a_def job_b_def new_job_def)
  have n: "\<forall>j\<in>set [job_a, job_b]. \<not> (id_field j = ''a'' \<and> api_key j = ''key-2'')"
    by (simp add: job_a_def job_b_def new_job_def)
  have pk: "primary_key [job_a, job_b]"
    by (simp add: primary_key_def job_a_def job_b_def new_job_def)
  have b: "job_b \<in> set [job_a, job_b]" "api_key job_b \<noteq> ''key-1''"
    by (simp_all add: job_b_def new_job_def)
  have l: "list_jobs (\<lambda>c. Some (\<lambda>x y. created_at x \<le> created_at y)) [job_a, job_b] ''key-2''
        \<lparr> q_status = None, q_priority = None, page = 1, per_page = 50,
          sort_by = ''created_at'', sort_order = ''desc'' \<rparr> = Inr [to_job_response job_b]"
    by (simp add: list_jobs_def order_by_def job_a_def job_b_def new_job_def)
  from owner_isolation [of "[job_a, job_b]" "''a''" "''key-1''" "to_job_response job_a"
      "\<lambda>c. Some (\<lambda>x y. created_at x \<le> created_at y)" _ "[]"] g pk b
  have 1: "(\<exists>j\<in>set [job_a, job_b]. id_field j = ''a'' \<and> api_key j = ''key-1''
         \<and> to_job_response job_a = to_job_response j)
     \<and> job_b \<in> set (snd (delete_job [job_a, job_b] ''a'' ''key-1''))"
    by blast
  from owner_isolation [of "[job_a, job_b]" "''a''" "''key-2''" _
      "\<lambda>c. Some (\<lambda>x y. created_at x \<le> created_at y)"
      "\<lparr> q_status = None, q_priority = None, page = 1, per_page = 50,
          sort_by = ''created_at'', sort_order = ''desc'' \<rparr>" "[to_job_response job_b]"] n l
  have 2: "get_job [job_a, job_b] ''a'' ''key-2'' = Inr None
     \<and> delete_job [job_a, job_b] ''a'' ''key-2'' = (False, [job_a, job_b])
     \<and> (\<exists>j\<in>set [job_a, job_b]. api_key j = ''key-2''
         \<and> to_job_response job_b = to_job_response j)"
    by simp
  from g pk l 1 2 show ?thesis by blast
qed

text \<open>The response view of a new row, field by field.\<close>

lemma to_job_response_new_job:
  "to_job_response (new_job new_id now key ttl descr config prio hook) =
     \<lparr> id_field = new_id, status = PENDING, priority = prio,
       title = Some (case ttl of None \<Rightarrow> ''Untitled Composition''
                     | Some t \<Rightarrow> if t = [] then ''Untitled Composition'' else t),
       description = descr, progress = 0, current_step = None, output_file = None,
       error_message = None, retry_count = 0, max_retries = 3, created_at = now,
       updated_at = now, started_at = None, completed_at = None,
       expires_at = Some (now + 7 * 86400), webhook_url = hook, webhook_sent = False \<rparr>"
  by (simp add: to_job_response_def new_job_def)

text \<open>A request without scenes is refused, by the validator and by the endpoint.\<close>

lemma submit_empty_refused:
  assumes "scenes req = []"
  shows "submit_composition_job env db key req =
           (Inl (HTTPException 400 ''At least one scene is required''), db)"
    and "validate_scenes (scenes req) = Inl (ValueError ''At least one scene is required'')"
  using assms by (simp_all add: submit_composition_job_def validate_scenes_def)

text \<open>
  A request with scenes and without a webhook adds exactly one row, pending and owned by
  the caller, and the response carries the view of that row.
\<close>

lemma submit_without_webhook:
  assumes "scenes req \<noteq> []" and "req_webhook_url req = None"
  shows "submit_composition_job env db key req =
     (Inr \<lparr> success = True,
            job = to_job_response (new_job (uuid4 env) (utcnow env) key
                    (Some (composition_title (map fst (scenes req))))
                    (Some (composition_description env req)) (json_text env req)
                    (req_priority req) None),
            message = ''Video composition job submitted successfully. Total duration: ''
                     @ format_1f env (get_total_duration req) @ ''s'' \<rparr>,
      db @ [new_job (uuid4 env) (utcnow env) key
                    (Some (composition_title (map fst (scenes req))))
                    (Some (composition_description env req)) (json_text env req)
                    (req_priority req) None])"
  using assms
  by (simp add: submit_composition_job_def create_job_def json_dumps_def Let_def)

text \<open>A request with scenes and a webhook raises in \<open>create_job\<close>, and no row is added.\<close>

lemma submit_with_webhook_raises:
  assumes "scenes req \<noteq> []" and "req_webhook_url req = Some url"
  shows "submit_composition_job env db key req =
           (Inl (TypeError ''Object of type HttpUrl is not JSON serializable''), db)"
  using assms
  by (simp add: submit_composition_job_def create_job_def json_dumps_def Let_def)

text \<open>
  Claim C9 at a request of one scene with a webhook URL: the endpoint raises a
  \<open>TypeError\<close> and the table is as it was, no job is created. The same request without
  the webhook adds one pending job with the new id.
\<close>

theorem submit_with_webhook_creates_no_job:
  "scenes example_request_with_webhook \<noteq> []
   \<and> req_webhook_url example_request_with_webhook = Some ''https://example.com/hook''
   \<and> submit_composition_job example_submit_env [job_a] ''key-1'' example_request_with_webhook =
       (Inl (TypeError ''Object of type HttpUrl is not JSON serializable''), [job_a])
   \<and> map id_field (snd (submit_composition_job example_submit_env [job_a] ''key-1''
         (example_request [(''Scene 1'', example_scene)]))) = [''a'', ''c'']
   \<and> map status (snd (submit_composition_job example_submit_env [job_a] ''key-1''
         (example_request [(''Scene 1'', example_scene)]))) = [PENDING, PENDING]"
proof -
  have w: "scenes example_request_with_webhook \<noteq> []"
    "req_webhook_url example_request_with_webhook = Some ''https://example.com/hook''"
    by (simp_all add: example_request_with_webhook_def example_request_def)
  have n: "scenes (example_request [(''Scene 1'', example_scene)]) \<noteq> []"
    "req_webhook_url (example_request [(''Scene 1'', example_scene)]) = None"
    by (simp_all add: example_request_def)
  have a: "id_field job_a = ''a''" "status job_a = PENDING"
    by (simp_all add: job_a_def new_job_def)
  have c: "uuid4 example_submit_env = ''c''" by (simp add: example_submit_env_def)
  show ?thesis
    using w a c
    by (simp add: submit_with_webhook_raises [OF w] submit_without_webhook [OF n] new_job_def)
qed

text \<open>
  Claim C2 as stated fails: \<open>update_job_status\<close> moves a completed job back to pending
  and reports success.
\<close>

theorem terminal_status_overwritten:
  "is_finished_status (status job_done)
   \<and> fst (update_job_status [job_done] ''a'' ''key-1'' PENDING 300) = True
   \<and> map status (snd (update_job_status [job_done] ''a'' ''key-1'' PENDING 300)) = [PENDING]"
  by (simp add: update_job_status_def select_job_def set_status_def is_finished_status_def
      job_done_def job_a_def new_job_def)

lemma get_job_found:
  assumes "primary_key db" "j \<in> set db" "api_key j = key"
  shows "get_job db (id_field j) key = Inr (Some (to_job_response j))"
  using select_job_found [OF assms] by (simp add: get_job_def)

lemma update_job_status_found:
  assumes "primary_key db" "j \<in> set db" "api_key j = key"
  shows "update_job_status db (id_field j) key s now =
     (True, map (\<lambda>r. if id_field r = id_field j then set_status s now r else r) db)"
  using select_job_found [OF assms] by (simp add: update_job_status_def)

lemma status_to_job_response [simp]: "status (to_job_response j) = status j"
  by (simp add: to_job_response_def)

lemma status_set_status [simp]: "status (set_status s now j) = s"
  by (simp add: set_status_def Let_def)

lemma id_field_set_status [simp]: "id_field (set_status s now j) = id_field j"
  by (simp add: set_status_def Let_def)

text \<open>
  Claim C2, amended. For a job whose status is completed, failed or cancelled,
  \<open>process_job\<close> answers 400 and leaves the table unchanged; \<open>update_job_status\<close> has no
  guard: asked for any status, it reports success and the job then has that status.
\<close>

theorem terminal_status_guard:
  assumes "primary_key db" "j \<in> set db" "api_key j = key" "is_finished_status (status j)"
  shows "process_job pipeline db (id_field j) key t_begin t_end =
           (Inl (HTTPException 400
              (''Job cannot be processed. Current status: '' @ JobStatus_value (status j))), db)
         \<and> fst (update_job_status db (id_field j) key s now) = True
         \<and> (\<exists>j'\<in>set (snd (update_job_status db (id_field j) key s now)).
               id_field j' = id_field j \<and> status j' = s)"
proof (intro conjI)
  from assms(4) have "status j \<noteq> PENDING" by (auto simp: is_finished_status_def)
  then show "process_job pipeline db (id_field j) key t_begin t_end =
           (Inl (HTTPException 400
              (''Job cannot be processed. Current status: '' @ JobStatus_value (status j))), db)"
    by (simp add: process_job_def process_job_begin_def get_job_found [OF assms(1-3)])
  show "fst (update_job_status db (id_field j) key s now) = True"
    by (simp add: update_job_status_found [OF assms(1-3)])
  have "set_status s now j \<in> set (snd (update_job_status db (id_field j) key s now))"
    using assms(2) by (force simp: update_job_status_found [OF assms(1-3)])
  then show "\<exists>j'\<in>set (snd (update_job_status db (id_field j) key s now)).
               id_field j' = id_field j \<and> status j' = s"
    by (rule rev_bexI) simp
qed

text \<open>Claim C2, amended, at a completed job.\<close>

theorem terminal_status_guard_witness:
  "primary_key [job_done, job_b] \<and> job_done \<in> set [job_done, job_b]
   \<and> api_key job_done = ''key-1'' \<and> is_finished_status (status job_done)
   \<and> process_job (\<lambda>c. Inr ''out.mp4'') [job_done, job_b] ''a'' ''key-1'' 400 500 =
        (Inl (HTTPException 400 ''Job cannot be processed. Current status: completed''),
         [job_done, job_b])
   \<and> fst (update_job_status [job_done, job_b] ''a'' ''key-1'' PROCESSING 400) = True
   \<and> (\<exists>j'\<in>set (snd (update_job_status [job_done, job_b] ''a'' ''key-1'' PROCESSING 400)).
         id_field j' = ''a'' \<and> status j' = PROCESSING)"
proof -
  have h: "primary_key [job_done, job_b]" "job_done \<in> set [job_done, job_b]"
    "api_key job_done = ''key-1''" "is_finished_status (status job_done)"
    by (simp_all add: primary_key_def is_finished_status_def job_done_def job_a_def job_b_def new_job_def)
  have i: "id_field job_done = ''a''" "status job_done = COMPLETED"
    by (simp_all add: job_done_def job_a_def new_job_def)
  from terminal_status_guard [OF h, of "\<lambda>c. Inr ''out.mp4''" 400 500 PROCESSING 400] h i
  show ?thesis by simp
qed

text \<open>
  Claim C6 at a pending job: the first part of \<open>process_job\<close> hands the job on, sets
  the status to processing and \<open>updated_at\<close> to the clock, and leaves \<open>started_at\<close>
  unset.
\<close>

theorem begin_leaves_started_at_unset:
  "status job_a = PENDING
   \<and> fst (process_job_begin [job_a] ''a'' ''key-1'' 500) = Inr (to_job_response job_a)
   \<and> map status (snd (process_job_begin [job_a] ''a'' ''key-1'' 500)) = [PROCESSING]
   \<and> map updated_at (snd (process_job_begin [job_a] ''a'' ''key-1'' 500)) = [500]
   \<and> map started_at (snd (process_job_begin [job_a] ''a'' ''key-1'' 500)) = [None]"
  by (simp add: process_job_begin_def get_job_def update_job_status_def select_job_def
      set_status_def is_finished_status_def job_a_def new_job_def)

text \<open>
  Claim C1 at a job in processing whose pipeline raised: the \<open>except\<close> clause answers
  500 with the message and sets the status to failed, and \<open>error_message\<close> stays
  unset. The same holds for \<open>process_job\<close> as a whole on a pending job.
\<close>

theorem failure_leaves_error_message_unset:
  "status job_processing = PROCESSING
   \<and> fst (process_job_except [job_processing] ''a'' ''key-1'' 600
            (ValueError ''Video composition failed: Failed to create clip from Scene 1: no decoder'')) =
       Inl (HTTPException 500
         ''Job processing failed: Video composition failed: Failed to create clip from Scene 1: no decoder'')
   \<and> map status (snd (process_job_except [job_processing] ''a'' ''key-1'' 600
            (ValueError ''Video composition failed: Failed to create clip from Scene 1: no decoder''))) = [FAILED]
   \<and> map error_message (snd (process_job_except [job_processing] ''a'' ''key-1'' 600
            (ValueError ''Video composition failed: Failed to create clip from Scene 1: no decoder''))) = [None]
   \<and> map status (snd (process_job (\<lambda>c. Inr ''out.mp4'') [job_a] ''a'' ''key-1'' 500 600)) = [FAILED]
   \<and> map error_message (snd (process_job (\<lambda>c. Inr ''out.mp4'') [job_a] ''a'' ''key-1'' 500 600)) = [None]"
  by (simp add: process_job_def process_job_begin_def process_job_render_def process_job_except_def
      job_composition_config_def get_job_def update_job_status_def select_job_def
      set_status_def is_finished_status_def job_processing_def job_a_def new_job_def)


section \<open>Lemmas about the video service\<close>

subsection \<open>The order of joining\<close>

lemma list_update_last: "fc \<noteq> [] \<Longrightarrow> fc[length fc - Suc 0 := x] = butlast fc @ [x]"
  by (induction fc rule: rev_induct) auto

lemma join_step_nonempty: "join_step fc ct \<noteq> []"
  by (simp add: join_step_def)

lemma join_clips_foldl:
  "0 < i \<Longrightarrow> fc \<noteq> [] \<Longrightarrow> join_clips i fc xs = Inr (foldl join_step fc xs)"
proof (induction xs arbitrary: i fc)
  case Nil
  then show ?case by simp
next
  case (Cons x xs)
  obtain c t where x: "x = (c, t)" by (cases x)
  have step: "join_step fc (c, t) \<noteq> []" by (rule join_step_nonempty)
  show ?case
  proof (cases "t = NONE")
    case True
    with Cons.prems x Cons.IH [of "Suc i" "fc @ [c]"] show ?thesis
      by (simp add: join_step_def)
  next
    case False
    with Cons.prems x Cons.IH [of "Suc i" "butlast fc @ [apply_transition (last fc) c t (1 / 2)]"]
    show ?thesis
      by (simp add: join_step_def list_update_last Let_def)
  qed
qed

lemma foldl_join_step_nonempty: "fc \<noteq> [] \<Longrightarrow> foldl join_step fc xs \<noteq> []"
  by (induction xs arbitrary: fc) (simp_all add: join_step_nonempty)

lemma apply_transitions_Cons:
  "apply_transitions ((c0, t0) # rest) = Inr (foldl join_step [c0] rest)"
  by (simp add: apply_transitions_def join_clips_foldl)

text \<open>
  Appending a clip for the final concatenation lasts as long as joining it to the last
  element with the transition \<open>none\<close>.
\<close>

lemma none_appended_lasts_as_joined:
  "fc \<noteq> [] \<Longrightarrow>
   clip_duration (Concatenate Compose (fc @ [c])) =
     clip_duration (Concatenate Compose (butlast fc @ [apply_transition (last fc) c NONE d]))"
  by (induction fc rule: rev_induct) (simp_all add: clip_duration_def)

text \<open>
  Claim C8. For a non-empty list of clips the second loop returns a non-empty list, and
  one more scene \<open>(c, t)\<close> is joined through its own transition \<open>t\<close> to the last
  element built so far (for \<open>none\<close> it is appended, to be concatenated after it). The
  first clip alone opens the list, and the transition of the first scene is never
  used: it is not applied between the first clip and the one that follows.
\<close>

theorem transitions_join_backwards:
  assumes "clips \<noteq> []"
  shows "\<exists>fc. apply_transitions clips = Inr fc \<and> fc \<noteq> []
           \<and> apply_transitions (clips @ [(c, t)]) =
               Inr (if t \<noteq> NONE then butlast fc @ [apply_transition (last fc) c t (1 / 2)]
                    else fc @ [c])
           \<and> apply_transitions [(c0, t0)] = Inr [c0]
           \<and> apply_transitions ((c0, t0) # clips) = apply_transitions ((c0, t0') # clips)"
proof -
  from assms obtain c1 t1 rest where clips: "clips = (c1, t1) # rest"
    by (cases clips) auto
  let ?fc = "foldl join_step [c1] rest"
  have "apply_transitions clips = Inr ?fc"
    by (simp add: clips apply_transitions_Cons)
  moreover have "?fc \<noteq> []" by (simp add: foldl_join_step_nonempty)
  moreover have "apply_transitions (clips @ [(c, t)]) =
      Inr (if t \<noteq> NONE then butlast ?fc @ [apply_transition (last ?fc) c t (1 / 2)] else ?fc @ [c])"
    by (simp add: clips apply_transitions_Cons join_step_def)
  moreover have "apply_transitions [(c0, t0)] = Inr [c0]"
    by (simp add: apply_transitions_Cons)
  moreover have "apply_transitions ((c0, t0) # clips) = apply_transitions ((c0, t0') # clips)"
    by (simp add: apply_transitions_Cons)
  ultimately show ?thesis by blast
qed

text \<open>Claim C8, at three clips with fade, crossfade and slide.\<close>

theorem transitions_join_backwards_witness:
  "[(clip_a, FADE), (clip_b, CROSSFADE)] \<noteq> []
   \<and> apply_transitions [(clip_a, FADE), (clip_b, CROSSFADE)] =
       Inr [apply_transition clip_a clip_b CROSSFADE (1 / 2)]
   \<and> apply_transitions ([(clip_a, FADE), (clip_b, CROSSFADE)] @ [(clip_c, SLIDE_LEFT)]) =
       Inr [apply_transition (apply_transition clip_a clip_b CROSSFADE (1 / 2)) clip_c SLIDE_LEFT (1 / 2)]
   \<and> apply_transitions ((clip_c, FADE) # [(clip_a, FADE), (clip_b, CROSSFADE)]) =
       apply_transitions ((clip_c, SLIDE_LEFT) # [(clip_a, FADE), (clip_b, CROSSFADE)])"
proof -
  have n: "[(clip_a, FADE), (clip_b, CROSSFADE)] \<noteq> []" by simp
  have v: "apply_transitions [(clip_a, FADE), (clip_b, CROSSFADE)] =
       Inr [apply_transition clip_a clip_b CROSSFADE (1 / 2)]"
    by (simp add: apply_transitions_def Let_def del: apply_transition.simps)
  from transitions_join_backwards [OF n, of clip_c SLIDE_LEFT clip_c FADE SLIDE_LEFT] v n
  show ?thesis by (simp del: apply_transition.simps)
qed

subsection \<open>The crossfade window\<close>

text \<open>
  Claim C3 as stated fails when the requested window equals the shorter duration: for
  clips of two and four seconds and a window of two seconds the overlap stays two
  seconds, not one.
\<close>

theorem crossfade_at_equality_keeps_window:
  "(2::real) \<ge> min (clip_duration clip_a) (clip_duration clip_b)
   \<and> apply_transition clip_a clip_b CROSSFADE 2 =
       Composite [FadeOut clip_a 2, SetStart (FadeIn clip_b 2) 0]
   \<and> (2::real) \<noteq> min (clip_duration clip_a) (clip_duration clip_b) / 2
   \<and> apply_transition clip_a clip_b CROSSFADE 2 \<noteq>
       Composite [FadeOut clip_a (min (clip_duration clip_a) (clip_duration clip_b) / 2),
                  SetStart (FadeIn clip_b (min (clip_duration clip_a) (clip_duration clip_b) / 2))
                    (clip_duration clip_a - min (clip_duration clip_a) (clip_duration clip_b) / 2)]"
  by (simp add: clip_duration_def clip_a_def clip_b_def)

text \<open>
  Claim C3, amended. Let the requested window be at least the shorter of the two
  durations. When it is strictly greater, the crossfade uses half that shorter duration
  as its overlap; when it is equal, the requested window itself is the overlap. In both
  cases the result (for a first clip that starts at 0 and a second clip of non-negative
  duration) lasts the sum of both durations minus the overlap.
\<close>

theorem crossfade_window_from_min:
  assumes "clip_start a = 0" and "0 \<le> clip_duration b"
  shows "(d > min (clip_duration a) (clip_duration b) \<longrightarrow>
            apply_transition a b CROSSFADE d =
              Composite [FadeOut a (min (clip_duration a) (clip_duration b) / 2),
                         SetStart (FadeIn b (min (clip_duration a) (clip_duration b) / 2))
                           (clip_duration a - min (clip_duration a) (clip_duration b) / 2)]
            \<and> clip_duration (apply_transition a b CROSSFADE d) =
                clip_duration a + clip_duration b - min (clip_duration a) (clip_duration b) / 2)
         \<and> (d = min (clip_duration a) (clip_duration b) \<longrightarrow>
            apply_transition a b CROSSFADE d =
              Composite [FadeOut a d, SetStart (FadeIn b d) (clip_duration a - d)]
            \<and> clip_duration (apply_transition a b CROSSFADE d) =
                clip_duration a + clip_duration b - d)"
proof (intro conjI impI)
  assume gt: "d > min (clip_duration a) (clip_duration b)"
  then show eq: "apply_transition a b CROSSFADE d =
           Composite [FadeOut a (min (clip_duration a) (clip_duration b) / 2),
                      SetStart (FadeIn b (min (clip_duration a) (clip_duration b) / 2))
                        (clip_duration a - min (clip_duration a) (clip_duration b) / 2)]"
    by (simp add: Let_def)
  have "min (clip_duration a) (clip_duration b) / 2 \<le> clip_duration b"
    using assms(2) by (auto simp: min_def)
  with assms(1) show "clip_duration (apply_transition a b CROSSFADE d) =
             clip_duration a + clip_duration b - min (clip_duration a) (clip_duration b) / 2"
    unfolding eq by (simp add: clip_duration_def clip_start_def max_def)
next
  assume e: "d = min (clip_duration a) (clip_duration b)"
  then show eq: "apply_transition a b CROSSFADE d =
              Composite [FadeOut a d, SetStart (FadeIn b d) (clip_duration a - d)]"
    by (simp add: Let_def)
  from e have "d \<le> clip_duration b" by simp
  with assms(1) show "clip_duration (apply_transition a b CROSSFADE d) =
                clip_duration a + clip_duration b - d"
    unfolding eq by (simp add: clip_duration_def clip_start_def max_def)
qed

text \<open>
  Claim C3, amended, at clips of two and four seconds: a window of five seconds is cut
  to one, a window of two seconds is kept.
\<close>

theorem crossfade_window_from_min_witness:
  "clip_start clip_a = 0 \<and> 0 \<le> clip_duration clip_b
   \<and> (5::real) > min (clip_duration clip_a) (clip_duration clip_b)
   \<and> apply_transition clip_a clip_b CROSSFADE 5 =
       Composite [FadeOut clip_a 1, SetStart (FadeIn clip_b 1) 1]
   \<and> clip_duration (apply_transition clip_a clip_b CROSSFADE 5) = 5
   \<and> (2::real) = min (clip_duration clip_a) (clip_duration clip_b)
   \<and> apply_transition clip_a clip_b CROSSFADE 2 =
       Composite [FadeOut clip_a 2, SetStart (FadeIn clip_b 2) 0]
   \<and> clip_duration (apply_transition clip_a clip_b CROSSFADE 2) = 4"
proof -
  have h: "clip_start clip_a = 0" "0 \<le> clip_duration clip_b"
    by (simp_all add: clip_duration_def clip_start_def clip_a_def clip_b_def)
  have m: "min (clip_duration clip_a) (clip_duration clip_b) = 2" "clip_duration clip_a = 2"
    "clip_duration clip_b = 4"
    by (simp_all add: clip_duration_def clip_a_def clip_b_def)
  from crossfade_window_from_min [OF h, of 5] crossfade_window_from_min [OF h, of 2] h
  show ?thesis
    by (simp add: m)
qed

subsection \<open>Fetching a source\<close>






subsection \<open>Progress and clean-up of a render\<close>

lemma download_progress_log [simp]:
  "progress_log (snd (download_media_from_url env url st)) = progress_log st"
  by (simp add: download_media_from_url_def Let_def split: http_result.splits option.splits)

lemma get_media_path_progress_log [simp]:
  "progress_log (snd (get_media_path env src st)) = progress_log st"
  by (simp add: get_media_path_def)

lemma create_clip_progress_log:
  "create_clip_from_scene env name sd res f st = (r, st') \<Longrightarrow> progress_log st' = progress_log st"
proof -
  assume a: "create_clip_from_scene env name sd res f st = (r, st')"
  obtain r1 st1 where g: "get_media_path env (source sd) st = (r1, st1)"
    by (cases "get_media_path env (source sd) st")
  then have "progress_log st1 = progress_log st"
    using get_media_path_progress_log [of env "source sd" st] by simp
  with a g show ?thesis
    by (auto simp: create_clip_from_scene_def split: sum.splits)
qed

lemma create_clips_progress_log:
  "create_clips env True res f n i items clips st = (Inr cs, st') \<Longrightarrow>
   \<exists>new. progress_log st' = progress_log st @ new
     \<and> map snd new = map (\<lambda>k. 10 + (real k / real n) * 50) [i..<i + length items]"
proof (induction items arbitrary: i clips st)
  case Nil
  then show ?case by simp
next
  case (Cons item items)
  obtain name sd where item: "item = (name, sd)" by (cases item)
  let ?p = "10 + (real i / real n) * 50"
  let ?st1 = "report True (''Processing scene: '' @ name) ?p st"
  obtain r st2 where c: "create_clip_from_scene env name sd res f ?st1 = (r, st2)"
    by (cases "create_clip_from_scene env name sd res f ?st1")
  from create_clip_progress_log [OF c]
  have l2: "progress_log st2 = progress_log st @ [(''Processing scene: '' @ name, ?p)]"
    by (simp add: report_def)
  from Cons.prems item c obtain cl where r: "r = Inr cl"
    and rest: "create_clips env True res f n (Suc i) items (clips @ [(cl, transition sd)]) st2 = (Inr cs, st')"
    by (cases r) (auto simp: Let_def)
  from Cons.IH [OF rest] obtain new where
    new: "progress_log st' = progress_log st2 @ new"
      "map snd new = map (\<lambda>k. 10 + (real k / real n) * 50) [Suc i..<Suc i + length items]"
    by blast
  have e: "Suc i + length items = i + length (item # items)" by simp
  have u: "[i..<i + length (item # items)] = i # [Suc i..<Suc i + length items]"
    unfolding e by (rule upt_conv_Cons) simp
  let ?new = "(''Processing scene: '' @ name, ?p) # new"
  have "progress_log st' = progress_log st @ ?new" using new(1) l2 by simp
  moreover have "map snd ?new = map (\<lambda>k. 10 + (real k / real n) * 50) [i..<i + length (item # items)]"
    unfolding u using new(2) by simp
  ultimately show ?case by blast
qed

lemma progress_values_sorted:
  "sorted (10 # map (\<lambda>k. 10 + (real k / real n) * 50) [0..<n] @ [70, 80, 90, 100])"
proof -
  let ?f = "\<lambda>k. 10 + (real k / real n) * 50"
  have mono: "sorted (map ?f [0..<n])"
    unfolding sorted_map
    by (rule sorted_wrt_mono_rel [OF _ sorted_wrt_upt]) (simp add: divide_right_mono)
  have lo: "\<forall>x\<in>set (map ?f [0..<n]). 10 \<le> x" by auto
  have hi: "\<forall>x\<in>set (map ?f [0..<n]). x \<le> 70"
  proof
    fix x assume "x \<in> set (map ?f [0..<n])"
    then obtain k where k: "k < n" "x = ?f k" by auto
    then have "0 < real n" "real k \<le> real n" by simp_all
    then have "(real k / real n) * 50 \<le> 50" by (simp add: field_simps)
    with k show "x \<le> 70" by linarith
  qed
  from mono lo hi show ?thesis
    by (auto simp: sorted_append) 
qed


lemma compose_video_try_success:
  assumes "compose_video_try env cb items fmt q f settings st0 = (Inr path, st)"
  obtains clips st2 final_video where
    "create_clips env cb (QUALITY_RESOLUTIONS q) f (length items) 0 items []
       (report cb ''Creating clips from scenes'' 10 st0) = (Inr clips, st2)"
    and "st = close_clip final_video (fold close_clip (map fst clips)
           (report cb ''Video composition complete'' 100
             (report cb ''Rendering final video'' 90
               (report cb ''Concatenating video'' 80
                 (report cb ''Applying transitions'' 70 st2)))))"
  using assms unfolding compose_video_try_def Let_def
  by (auto split: prod.splits sum.splits option.splits if_splits)

lemma compose_video_success:
  "compose_video env cb items fmt q f settings st0 = (Inr path, st) \<Longrightarrow>
   compose_video_try env cb items fmt q f settings st0 = (Inr path, st)"
  by (auto simp: compose_video_def split: prod.splits sum.splits)

lemma progress_log_close_clip [simp]: "progress_log (close_clip c st) = progress_log st"
  by (simp add: close_clip_def)

lemma progress_log_fold_close_clip [simp]:
  "progress_log (fold close_clip cs st) = progress_log st"
  by (induction cs arbitrary: st) simp_all

lemma open_clips_fold_close_clip:
  "open_clips (fold close_clip cs st) = fold remove1 cs (open_clips st)"
  by (induction cs arbitrary: st) (simp_all add: close_clip_def)

lemma fold_remove1_prefix: "fold remove1 xs (xs @ ys) = ys"
  by (induction xs) simp_all

lemma open_clips_report [simp]: "open_clips (report cb msg p st) = open_clips st"
  by (simp add: report_def)

lemma create_clip_open_clips:
  "create_clip_from_scene env name sd res f st = (Inr c, st') \<Longrightarrow>
   open_clips st' = open_clips st @ [c]"
proof -
  assume a: "create_clip_from_scene env name sd res f st = (Inr c, st')"
  have d: "open_clips (snd (download_media_from_url env (source sd) st)) = open_clips st"
    by (simp add: download_media_from_url_def Let_def split: http_result.splits option.splits)
  obtain r1 st1 where g: "get_media_path env (source sd) st = (r1, st1)"
    by (cases "get_media_path env (source sd) st")
  with d have "open_clips st1 = open_clips st"
    by (auto simp: get_media_path_def split: if_splits)
  with a g show ?thesis
    by (auto simp: create_clip_from_scene_def split: sum.splits)
qed

lemma create_clips_open_clips:
  "create_clips env cb res f n i items clips st = (Inr cs, st') \<Longrightarrow>
   open_clips st = map fst clips \<Longrightarrow> open_clips st' = map fst cs"
proof (induction items arbitrary: i clips st)
  case Nil
  then show ?case by simp
next
  case (Cons item items)
  obtain name sd where item: "item = (name, sd)" by (cases item)
  let ?st1 = "report cb (''Processing scene: '' @ name) (10 + (real i / real n) * 50) st"
  obtain r st2 where c: "create_clip_from_scene env name sd res f ?st1 = (r, st2)"
    by (cases "create_clip_from_scene env name sd res f ?st1")
  from Cons.prems(1) item c obtain cl where r: "r = Inr cl"
    and rest: "create_clips env cb res f n (Suc i) items (clips @ [(cl, transition sd)]) st2 = (Inr cs, st')"
    by (cases r) (auto simp: Let_def)
  from c r have "open_clips st2 = open_clips ?st1 @ [cl]"
    by (simp add: create_clip_open_clips)
  with Cons.prems(2) have "open_clips st2 = map fst (clips @ [(cl, transition sd)])" by simp
  with rest show ?case by (rule Cons.IH)
qed

text \<open>On the path that returns, every scene clip has been closed.\<close>

lemma compose_video_success_closes_clips:
  assumes "compose_video env cb items fmt q f settings st0 = (Inr path, st)"
    and "open_clips st0 = []"
  shows "open_clips st = []"
proof -
  from compose_video_success [OF assms(1)] obtain clips st2 final_video where
    c: "create_clips env cb (QUALITY_RESOLUTIONS q) f (length items) 0 items []
       (report cb ''Creating clips from scenes'' 10 st0) = (Inr clips, st2)"
    and st: "st = close_clip final_video (fold close_clip (map fst clips)
           (report cb ''Video composition complete'' 100
             (report cb ''Rendering final video'' 90
               (report cb ''Concatenating video'' 80
                 (report cb ''Applying transitions'' 70 st2)))))"
    by (rule compose_video_try_success)
  from create_clips_open_clips [OF c] assms(2) have "open_clips st2 = map fst clips" by simp
  then show ?thesis
    unfolding st using fold_remove1_prefix [of "map fst clips" "[]"]
    by (simp add: close_clip_def open_clips_fold_close_clip)
qed

text \<open>
  Claim C5. When \<open>compose_video\<close> is given a progress callback and returns a path, the
  values the callback received during the run are 10, then \<open>10 + (i / N) * 50\<close> for
  each scene \<open>i\<close> of \<open>N\<close>, then 70, 80, 90 and 100: a non-decreasing sequence whose last
  value is 100.
\<close>

theorem progress_is_monotone_and_ends_at_100:
  assumes "compose_video env True scene_items fmt q target_fps settings st0 = (Inr path, st)"
  shows "\<exists>new. progress_log st = progress_log st0 @ new
           \<and> map snd new =
               10 # map (\<lambda>i. 10 + (real i / real (length scene_items)) * 50)
                      [0..<length scene_items] @ [70, 80, 90, 100]
           \<and> sorted (map snd new) \<and> last (map snd new) = 100"
proof -
  from compose_video_success [OF assms] obtain clips st2 final_video where
    c: "create_clips env True (QUALITY_RESOLUTIONS q) target_fps (length scene_items) 0 scene_items []
       (report True ''Creating clips from scenes'' 10 st0) = (Inr clips, st2)"
    and st: "st = close_clip final_video (fold close_clip (map fst clips)
           (report True ''Video composition complete'' 100
             (report True ''Rendering final video'' 90
               (report True ''Concatenating video'' 80
                 (report True ''Applying transitions'' 70 st2)))))"
    by (rule compose_video_try_success)
  from create_clips_progress_log [OF c] obtain mid where
    mid: "progress_log st2 = progress_log st0 @ (''Creating clips from scenes'', 10) # mid"
      "map snd mid = map (\<lambda>i. 10 + (real i / real (length scene_items)) * 50)
                      [0..<length scene_items]"
    by (auto simp: report_def)
  let ?new = "(''Creating clips from scenes'', 10) # mid @
      [(''Applying transitions'', 70), (''Concatenating video'', 80),
       (''Rendering final video'', 90), (''Video composition complete'', 100)]"
  have 1: "progress_log st = progress_log st0 @ ?new"
    unfolding st using mid(1) by (simp add: report_def)
  have 2: "map snd ?new = 10 # map (\<lambda>i. 10 + (real i / real (length scene_items)) * 50)
                      [0..<length scene_items] @ [70, 80, 90, 100]"
    using mid(2) by simp
  have 3: "sorted (map snd ?new)"
    unfolding 2 by (rule progress_values_sorted)
  have 4: "last (map snd ?new) = 100" by simp
  show ?thesis
    by (rule exI [of _ ?new]) (intro conjI 1 2 3 4)
qed


subsection \<open>Two renders, step by step\<close>

lemma files_are_no_urls: "\<not> is_url offline_env ''clip.mp4''" "\<not> is_url offline_env ''logo.png''"
  "\<not> is_url offline_env ''bad.png''"
  by (simp_all add: is_url_def offline_env_def example_env_def example_url_def)

lemma load_video_scene: "load_media offline_env ''clip.mp4'' video_scene (1920, 1080) 30 = Inr clip_1"
  by (simp add: load_media_def load_video_def offline_env_def example_env_def video_scene_def clip_1_def)

lemma load_image_scene: "load_media offline_env ''logo.png'' image_scene (1920, 1080) 30 = Inr clip_2"
  by (simp add: load_media_def offline_env_def example_env_def image_scene_def clip_2_def)

lemma load_broken_scene:
  "load_media offline_env ''bad.png'' broken_scene (1920, 1080) 30 =
     Inl (LibraryError ''cannot identify image file'')"
  by (simp add: load_media_def offline_env_def example_env_def broken_scene_def)

lemma create_video_scene:
  "create_clip_from_scene offline_env ''Scene 1'' video_scene (1920, 1080) 30 st =
     (Inr clip_1, st\<lparr>open_clips := open_clips st @ [clip_1]\<rparr>)"
  using files_are_no_urls(1) load_video_scene
  by (simp add: create_clip_from_scene_def get_media_path_def video_scene_def)

lemma create_image_scene:
  "create_clip_from_scene offline_env ''Scene 2'' image_scene (1920, 1080) 30 st =
     (Inr clip_2, st\<lparr>open_clips := open_clips st @ [clip_2]\<rparr>)"
  using files_are_no_urls(2) load_image_scene
  by (simp add: create_clip_from_scene_def get_media_path_def image_scene_def)

lemma create_broken_scene:
  "create_clip_from_scene offline_env ''Scene 2'' broken_scene (1920, 1080) 30 st =
     (Inl (ValueError ''Failed to create clip from Scene 2: cannot identify image file''), st)"
  using files_are_no_urls(3) load_broken_scene
  by (simp add: create_clip_from_scene_def get_media_path_def broken_scene_def)

lemma offline_env_fields:
  "write_file offline_env c w = None" "output_dir offline_env = ''/outputs''"
  "urandom_hex offline_env = ''00a1b2c3d4e5''"
  by (simp_all add: offline_env_def example_env_def)

lemma scene_transitions:
  "transition video_scene = NONE" "transition image_scene = FADE"
  by (simp_all add: video_scene_def image_scene_def)

lemma create_clips_two_scenes:
  "fst (create_clips offline_env cb (1920, 1080) 30 n i two_scenes [] st) =
     Inr [(clip_1, NONE), (clip_2, FADE)]"
  by (simp add: two_scenes_def create_video_scene create_image_scene scene_transitions)

lemma create_clips_failing_scenes:
  "fst (create_clips offline_env cb (1920, 1080) 30 n i failing_scenes [] st) =
     Inl (ValueError ''Failed to create clip from Scene 2: cannot identify image file'')"
  "open_clips (snd (create_clips offline_env cb (1920, 1080) 30 n i failing_scenes [] st)) =
     open_clips st @ [clip_1]"
  by (simp_all add: failing_scenes_def create_video_scene create_broken_scene)

lemma apply_transitions_two_scenes: 
  "apply_transitions [(clip_1, NONE), (clip_2, FADE)] =
     Inr [Concatenate Chain [FadeOut clip_1 (1 / 2), FadeIn clip_2 (1 / 2)]]"
  by (simp add: apply_transitions_def)

lemma two_scenes_render:
  "fst (compose_video offline_env True two_scenes MP4 FHD 30 black_settings fresh_state) =
     Inr ''/outputs/composition_00a1b2c3d4e5.mp4''"
  by (simp add: compose_video_def compose_video_try_def split_beta create_clips_two_scenes
      apply_transitions_two_scenes offline_env_fields)

text \<open>
  Claim C4 at a render whose second scene cannot be decoded: \<open>compose_video\<close> fails
  with the composition error, and the clip of the first scene is still open.
\<close>

theorem failure_leaves_clip_open:
  "fst (compose_video offline_env True failing_scenes MP4 FHD 30 black_settings fresh_state) =
     Inl (ValueError (''Video composition failed: ''
            @ ''Failed to create clip from Scene 2: cannot identify image file''))
   \<and> open_clips (snd (compose_video offline_env True failing_scenes MP4 FHD 30 black_settings
         fresh_state)) =
       [Resize (Subclip (VideoFileClip ''clip.mp4'' 10 30) 0 3) (1920, 1080)]"
  by (simp add: compose_video_def compose_video_try_def split_beta create_clips_failing_scenes
      clip_1_def fresh_state_def)

text \<open>Claim C5, at a render of two scenes that succeeds.\<close>

theorem progress_is_monotone_and_ends_at_100_witness:
  "fst (compose_video offline_env True two_scenes MP4 FHD 30 black_settings fresh_state) =
     Inr ''/outputs/composition_00a1b2c3d4e5.mp4''
   \<and> map snd (progress_log
         (snd (compose_video offline_env True two_scenes MP4 FHD 30 black_settings fresh_state))) =
       [10, 10, 35, 70, 80, 90, 100]
   \<and> sorted (map snd (progress_log
         (snd (compose_video offline_env True two_scenes MP4 FHD 30 black_settings fresh_state))))
   \<and> last (map snd (progress_log
         (snd (compose_video offline_env True two_scenes MP4 FHD 30 black_settings fresh_state)))) = 100"
proof -
  let ?r = "compose_video offline_env True two_scenes MP4 FHD 30 black_settings fresh_state"
  have h: "?r = (Inr ''/outputs/composition_00a1b2c3d4e5.mp4'', snd ?r)"
    using two_scenes_render by (simp add: prod_eq_iff)
  have l: "progress_log fresh_state = []" "length two_scenes = 2"
    by (simp_all add: fresh_state_def two_scenes_def)
  have u: "[0..<2] = [0, Suc 0]" by (simp add: upt_rec)
  from progress_is_monotone_and_ends_at_100 [OF h] obtain new where
    n: "progress_log (snd ?r) = progress_log fresh_state @ new"
    "map snd new = 10 # map (\<lambda>i. 10 + (real i / real (length two_scenes)) * 50)
                      [0..<length two_scenes] @ [70, 80, 90, 100]"
    "sorted (map snd new)" "last (map snd new) = 100"
    by (elim exE conjE)
  from n(2) have v: "map snd new = [10, 10, 35, 70, 80, 90, 100]"
    unfolding l u by simp
  from n(1) have "progress_log (snd ?r) = new" by (simp add: l)
  with v n(3,4) two_scenes_render show ?thesis by simp
qed


end
